theory Spec2Isabelle
  imports Complex_Main
begin

section \<open>mesh-level.py: probing log to height map\<close>

text \<open>
  A shallow embedding of \<^verbatim>\<open>mesh-level.py\<close>. Python integers are \<open>int\<close>, Python
  strings are \<open>string\<close> (ASCII text), and Python floats are idealised as \<open>real\<close>:
  rounding error, overflow to infinity and NaN are outside the model. Exceptions are
  values of type \<open>error\<close>; the effects of the script (opening files, calling the
  interpolation library, printing) are recorded as a list of events.

  The libraries the script calls but does not contain (file access, the regular
  expression for log lines, \<^verbatim>\<open>float()\<close>, \<^verbatim>\<open>scipy.interpolate.Rbf\<close>, the clock and the
  printing of floats) are fields of an environment record.
\<close>

subsection \<open>Errors and command line arguments\<close>

datatype error = ArgumentTypeError | ValueError | ZeroDivisionError | OSError | LibraryError

definition is_digit :: "char \<Rightarrow> bool" where
  "is_digit c = (c \<in> set ''0123456789'')"

text \<open>The characters \<^verbatim>\<open>int()\<close> strips: space, tab, newline, vertical tab, form feed, return.\<close>

definition is_space :: "char \<Rightarrow> bool" where
  "is_space c = (c = CHR '' '' \<or> c = CHR 0x09 \<or> c = CHR 0x0A \<or> c = CHR 0x0B \<or> c = CHR 0x0C \<or> c = CHR 0x0D)"

definition optional_minus :: "string \<Rightarrow> string" where
  "optional_minus s = (case s of [] \<Rightarrow> [] | c # r \<Rightarrow> if c = CHR ''-'' then r else c # r)"

text \<open>
  \<^verbatim>\<open>colonSeparatedNumbersPattern.match(arg_value)\<close> for the pattern \<^verbatim>\<open>-?\d+:-?\d+\<close>:
  \<^verbatim>\<open>match\<close> anchors the pattern at the start of the string only, so any text may follow.
\<close>

definition colonSeparatedNumbersPattern_match :: "string \<Rightarrow> bool" where
  "colonSeparatedNumbersPattern_match s =
     (let a = optional_minus s in
      takeWhile is_digit a \<noteq> [] \<and>
      (case dropWhile is_digit a of
         [] \<Rightarrow> False
       | c # r \<Rightarrow> c = CHR '':'' \<and> takeWhile is_digit (optional_minus r) \<noteq> []))"

definition colonSeparatedNumbersArgType :: "string \<Rightarrow> error + string" where
  "colonSeparatedNumbersArgType arg_value =
     (if \<not> colonSeparatedNumbersPattern_match arg_value then Inl ArgumentTypeError
      else Inr arg_value)"



subsection \<open>Selecting the mesh interval\<close>

text \<open>Python's \<^verbatim>\<open>a / b\<close> on integers: a float, or ZeroDivisionError.\<close>

definition py_truediv :: "int \<Rightarrow> int \<Rightarrow> error + real" where
  "py_truediv a b = (if b = 0 then Inl ZeroDivisionError else Inr (real_of_int a / real_of_int b))"




subsection \<open>Splitting the integer arguments\<close>

text \<open>\<^verbatim>\<open>s.split(':')\<close>: the pieces between colons, always at least one piece.\<close>

fun split_colon :: "string \<Rightarrow> string list" where
  "split_colon [] = [[]]"
| "split_colon (c # s) =
     (if c = CHR '':'' then [] # split_colon s
      else (case split_colon s of [] \<Rightarrow> [[c]] | p # ps \<Rightarrow> (c # p) # ps))"

definition strip :: "string \<Rightarrow> string" where
  "strip s = rev (dropWhile is_space (rev (dropWhile is_space s)))"

text \<open>Digits with single underscores between them, as \<^verbatim>\<open>int()\<close> accepts.\<close>

fun valid_digits :: "string \<Rightarrow> bool" where
  "valid_digits [] = False"
| "valid_digits [c] = is_digit c"
| "valid_digits (c # d # r) =
     (if is_digit c then (if d = CHR ''_'' then valid_digits r else valid_digits (d # r))
      else False)"

definition digit_val :: "char \<Rightarrow> nat" where
  "digit_val c = of_char c - 48"

definition decimal_value :: "string \<Rightarrow> nat" where
  "decimal_value s = foldl (\<lambda>a c. 10 * a + digit_val c) 0 (filter is_digit s)"

text \<open>
  \<^verbatim>\<open>int(val)\<close> on a string: surrounding whitespace is stripped, a sign may lead, the
  rest must be decimal digits; anything else is a ValueError.
\<close>

definition py_int :: "string \<Rightarrow> error + int" where
  "py_int s =
     (let t = strip s;
          neg = (t \<noteq> [] \<and> hd t = CHR ''-'');
          body = (if t \<noteq> [] \<and> (hd t = CHR ''-'' \<or> hd t = CHR ''+'') then tl t else t)
      in if valid_digits body
         then Inr (if neg then - int (decimal_value body) else int (decimal_value body))
         else Inl ValueError)"

text \<open>The list comprehension stops at the first piece that \<^verbatim>\<open>int()\<close> refuses.\<close>

fun int_each :: "string list \<Rightarrow> error + int list" where
  "int_each [] = Inr []"
| "int_each (p # ps) =
     (case py_int p of
        Inl e \<Rightarrow> Inl e
      | Inr i \<Rightarrow> (case int_each ps of Inl e \<Rightarrow> Inl e | Inr is \<Rightarrow> Inr (i # is)))"

definition splitIntArgs :: "string \<Rightarrow> error + int list" where
  "splitIntArgs intArgs = int_each (split_colon intArgs)"

text \<open>\<^verbatim>\<open>a, b = splitIntArgs(...)\<close>: unpacking anything but two values is a ValueError.\<close>

definition unpack2 :: "error + int list \<Rightarrow> error + int \<times> int" where
  "unpack2 r = (case r of Inl e \<Rightarrow> Inl e | Inr [a, b] \<Rightarrow> Inr (a, b) | Inr _ \<Rightarrow> Inl ValueError)"


subsection \<open>Processing the arguments\<close>


text \<open>The module level variables that the rest of the script reads.\<close>

record config =
  xMin :: int
  xMax :: int
  yMin :: int
  yMax :: int
  xPoints :: int
  yPoints :: int
  maxSamplePoints :: int
  probeLogPath :: string
  heightmapPath :: string



subsection \<open>The libraries and the outside world\<close>

text \<open>The keyword arguments that a call of \<^verbatim>\<open>Rbf\<close> may carry.\<close>

record rbf_kwargs =
  function_kw :: "string option"
  epsilon_kw :: "real option"
  smooth_kw :: "real option"

text \<open>
  What the script uses and does not contain: reading a file into lines, the search of
  \<^verbatim>\<open>probePointPattern\<close> in a line (the three captured texts), \<^verbatim>\<open>float()\<close>, the
  constructor \<^verbatim>\<open>Rbf\<close> (it fails, or gives the fitted surface as a function of x and y),
  the formatted clock, \<^verbatim>\<open>str()\<close> of a float, writing a file and \<^verbatim>\<open>os.chmod\<close>.
\<close>

record env =
  lib_readlines :: "string \<Rightarrow> error + string list"
  lib_search :: "string \<Rightarrow> (string \<times> string \<times> string) option"
  lib_float :: "string \<Rightarrow> error + real"
  lib_Rbf :: "real list \<Rightarrow> real list \<Rightarrow> real list \<Rightarrow> rbf_kwargs \<Rightarrow> error + (real \<Rightarrow> real \<Rightarrow> real)"
  lib_now :: string
  lib_str_float :: "real \<Rightarrow> string"
  lib_write :: "string \<Rightarrow> string \<Rightarrow> error option"
  lib_chmod :: "string \<Rightarrow> nat \<Rightarrow> error option"

text \<open>The calls the script makes to the outside, in order, whether they succeed or not.\<close>

datatype event =
    ReadLog string
  | RbfCall "real list" "real list" "real list" rbf_kwargs
  | Print string
  | WriteFile string string
  | Chmod string nat

subsection \<open>Reading and grouping the probed points\<close>

text \<open>
  \<^verbatim>\<open>probedPoints\<close> is a dict from a coordinate pair to the list of its Z values; a dict
  keeps its keys in insertion order, so it is an association list with distinct keys.
\<close>

type_synonym probed = "((real \<times> real) \<times> real list) list"

text \<open>Lines 155 to 158: a new key gets an empty list, then the value is appended.\<close>

fun dict_append :: "real \<times> real \<Rightarrow> real \<Rightarrow> probed \<Rightarrow> probed" where
  "dict_append xyCoordinate zOffset [] = [(xyCoordinate, [zOffset])]"
| "dict_append xyCoordinate zOffset ((k, zs) # rest) =
     (if k = xyCoordinate then (k, zs @ [zOffset]) # rest
      else (k, zs) # dict_append xyCoordinate zOffset rest)"

text \<open>Lines 148 to 152 for one line: no match, a ValueError of \<^verbatim>\<open>float()\<close>, or a sample.\<close>

definition sample_of_line :: "env \<Rightarrow> string \<Rightarrow> (error + (real \<times> real) \<times> real) option" where
  "sample_of_line env line =
     (case lib_search env line of
        None \<Rightarrow> None
      | Some (c0, c1, c2) \<Rightarrow>
          Some (case lib_float env c0 of
                  Inl e \<Rightarrow> Inl e
                | Inr x \<Rightarrow>
                   (case lib_float env c1 of
                      Inl e \<Rightarrow> Inl e
                    | Inr y \<Rightarrow>
                       (case lib_float env c2 of
                          Inl e \<Rightarrow> Inl e
                        | Inr z \<Rightarrow> Inr ((x, y), z)))))"

fun probe_lines :: "env \<Rightarrow> string list \<Rightarrow> probed \<Rightarrow> error + probed" where
  "probe_lines env [] probedPoints = Inr probedPoints"
| "probe_lines env (line # rest) probedPoints =
     (case sample_of_line env line of
        None \<Rightarrow> probe_lines env rest probedPoints
      | Some (Inl e) \<Rightarrow> Inl e
      | Some (Inr (xyCoordinate, zOffset)) \<Rightarrow>
          probe_lines env rest (dict_append xyCoordinate zOffset probedPoints))"

definition parseProbedPoints :: "env \<Rightarrow> config \<Rightarrow> event list \<times> (error + probed)" where
  "parseProbedPoints env cfg =
     ([ReadLog (probeLogPath cfg)],
      case lib_readlines env (probeLogPath cfg) of
        Inl e \<Rightarrow> Inl e
      | Inr lines \<Rightarrow> probe_lines env lines [])"

text \<open>\<^verbatim>\<open>sum(zOffsets) / len(zOffsets)\<close>.\<close>

definition mean_z :: "real list \<Rightarrow> error + real" where
  "mean_z zOffsets =
     (if length zOffsets = 0 then Inl ZeroDivisionError
      else Inr (sum_list zOffsets / real (length zOffsets)))"

fun averageZOffset :: "probed \<Rightarrow> error + real list \<times> real list \<times> real list" where
  "averageZOffset [] = Inr ([], [], [])"
| "averageZOffset ((xyCoordinate, zOffsets) # rest) =
     (case mean_z zOffsets of
        Inl e \<Rightarrow> Inl e
      | Inr m \<Rightarrow>
         (case averageZOffset rest of
            Inl e \<Rightarrow> Inl e
          | Inr (x, y, z) \<Rightarrow> Inr (fst xyCoordinate # x, snd xyCoordinate # y, m # z)))"

subsection \<open>The mesh grid and the interpolation\<close>

text \<open>
  \<^verbatim>\<open>np.linspace(start, stop, num)\<close>: \<open>num\<close> evenly spaced values from \<open>start\<close> to
  \<open>stop\<close>, the single value \<open>start\<close> when \<open>num\<close> is 1, and a ValueError when \<open>num\<close> is
  negative.
\<close>

definition linspace :: "int \<Rightarrow> int \<Rightarrow> int \<Rightarrow> error + real list" where
  "linspace start stop num =
     (if num < 0 then Inl ValueError
      else if num = 1 then Inr [real_of_int start]
      else Inr (map (\<lambda>i. real_of_int start +
                          real i * (real_of_int (stop - start) / real_of_int (num - 1)))
                    [0..<nat num]))"

text \<open>\<^verbatim>\<open>np.meshgrid(xs, ys)\<close>: two arrays of \<open>len(ys)\<close> rows and \<open>len(xs)\<close> columns.\<close>

definition meshgrid :: "real list \<Rightarrow> real list \<Rightarrow> real list list \<times> real list list" where
  "meshgrid xs ys = (map (\<lambda>y. xs) ys, map (\<lambda>y. map (\<lambda>x. y) xs) ys)"

definition buildMeshPoints :: "config \<Rightarrow> error + real list list \<times> real list list" where
  "buildMeshPoints cfg =
     (case linspace (xMin cfg) (xMax cfg) (xPoints cfg) of
        Inl e \<Rightarrow> Inl e
      | Inr xs \<Rightarrow>
         (case linspace (yMin cfg) (yMax cfg) (yPoints cfg) of
            Inl e \<Rightarrow> Inl e
          | Inr ys \<Rightarrow> Inr (meshgrid xs ys)))"

text \<open>Line 186 passes the three sequences and \<^verbatim>\<open>smooth=0\<close>, nothing else.\<close>

definition upsample_kwargs :: rbf_kwargs where
  "upsample_kwargs = \<lparr>function_kw = None, epsilon_kw = None, smooth_kw = Some 0\<rparr>"

text \<open>The fitted surface, called on the two arrays of the grid, is evaluated at each node.\<close>

definition upsampleBedMesh ::
  "env \<Rightarrow> config \<Rightarrow> real list \<times> real list \<times> real list \<Rightarrow> event list \<times> (error + real list list)" where
  "upsampleBedMesh env cfg averagedPoints =
     (case averagedPoints of (x, y, z) \<Rightarrow>
        ([RbfCall x y z upsample_kwargs],
         case lib_Rbf env x y z upsample_kwargs of
           Inl e \<Rightarrow> Inl e
         | Inr rbfInterpolator \<Rightarrow>
            (case buildMeshPoints cfg of
               Inl e \<Rightarrow> Inl e
             | Inr (gx, gy) \<Rightarrow> Inr (map2 (map2 rbfInterpolator) gx gy))))"

subsection \<open>Writing the height map\<close>

definition round_half_even :: "real \<Rightarrow> int" where
  "round_half_even x =
     (let f = \<lfloor>x\<rfloor>; d = x - real_of_int f
      in if d < 1 / 2 then f else if 1 / 2 < d then f + 1 else if even f then f else f + 1)"

text \<open>\<^verbatim>\<open>round(x, ndigits)\<close> on a float.\<close>

definition py_round :: "real \<Rightarrow> nat \<Rightarrow> real" where
  "py_round x ndigits = real_of_int (round_half_even (x * 10 ^ ndigits)) / 10 ^ ndigits"

fun str_nat :: "nat \<Rightarrow> string" where
  "str_nat n =
     (if n < 10 then [char_of (48 + n)] else str_nat (n div 10) @ [char_of (48 + n mod 10)])"

declare str_nat.simps [simp del]

text \<open>\<^verbatim>\<open>str(val)\<close> on an integer.\<close>

definition str_int :: "int \<Rightarrow> string" where
  "str_int i = (if i < 0 then CHR ''-'' # str_nat (nat (- i)) else str_nat (nat i))"

text \<open>\<^verbatim>\<open>sep.join(parts)\<close>.\<close>

fun join :: "string \<Rightarrow> string list \<Rightarrow> string" where
  "join sep [] = []"
| "join sep [p] = p"
| "join sep (p # q # ps) = p @ sep @ join sep (q # ps)"

text \<open>Line 198 followed by \<^verbatim>\<open>str\<close> of each value: nine texts, or the ZeroDivisionError.\<close>

definition settingsLine :: "env \<Rightarrow> config \<Rightarrow> error + string list" where
  "settingsLine env cfg =
     (case py_truediv (xMax cfg - xMin cfg) (xPoints cfg - 1) of
        Inl e \<Rightarrow> Inl e
      | Inr xSpacing \<Rightarrow>
         (case py_truediv (yMax cfg - yMin cfg) (yPoints cfg - 1) of
            Inl e \<Rightarrow> Inl e
          | Inr ySpacing \<Rightarrow>
              Inr [str_int (xMin cfg), str_int (xMax cfg), str_int (yMin cfg), str_int (yMax cfg),
                   lib_str_float env (- 1),
                   lib_str_float env (py_round xSpacing 2),
                   lib_str_float env (py_round ySpacing 2),
                   str_int (xPoints cfg), str_int (yPoints cfg)]))"

text \<open>The lines of \<^verbatim>\<open>str_out\<close>; each is followed by a newline in the text.\<close>

definition heightmap_lines :: "env \<Rightarrow> config \<Rightarrow> real list list \<Rightarrow> error + string list" where
  "heightmap_lines env cfg upsampledBedMesh =
     (case settingsLine env cfg of
        Inl e \<Rightarrow> Inl e
      | Inr vals \<Rightarrow>
          Inr ([''RepRapFirmware height map file v2 generated at '' @ lib_now env,
                ''xmin,xmax,ymin,ymax,radius,xspacing,yspacing,xnum,ynum'',
                join '','' vals]
               @ map (\<lambda>row. join '', '' (map (\<lambda>val. lib_str_float env (py_round val 3)) row))
                     upsampledBedMesh))"

definition unlines :: "string list \<Rightarrow> string" where
  "unlines ls = concat (map (\<lambda>l. l @ [CHR 0x0A]) ls)"

definition writeHeightmap :: "env \<Rightarrow> config \<Rightarrow> real list list \<Rightarrow> event list \<times> (error + unit)" where
  "writeHeightmap env cfg upsampledBedMesh =
     (case heightmap_lines env cfg upsampledBedMesh of
        Inl e \<Rightarrow> ([], Inl e)
      | Inr ls \<Rightarrow>
         (let str_out = unlines ls in
          case lib_write env (heightmapPath cfg) str_out of
            Some e \<Rightarrow> ([Print str_out, WriteFile (heightmapPath cfg) str_out], Inl e)
          | None \<Rightarrow>
             (case lib_chmod env (heightmapPath cfg) 511 of
                Some e \<Rightarrow> ([Print str_out, WriteFile (heightmapPath cfg) str_out,
                             Chmod (heightmapPath cfg) 511], Inl e)
              | None \<Rightarrow> ([Print str_out, WriteFile (heightmapPath cfg) str_out,
                           Chmod (heightmapPath cfg) 511], Inr ()))))"

subsection \<open>The whole script\<close>

text \<open>Line 219.\<close>

definition process_probe_data :: "env \<Rightarrow> config \<Rightarrow> event list \<times> (error + unit)" where
  "process_probe_data env cfg =
     (case parseProbedPoints env cfg of
        (t1, Inl e) \<Rightarrow> (t1, Inl e)
      | (t1, Inr probedPoints) \<Rightarrow>
         (case averageZOffset probedPoints of
            Inl e \<Rightarrow> (t1, Inl e)
          | Inr averagedPoints \<Rightarrow>
             (case upsampleBedMesh env cfg averagedPoints of
                (t2, Inl e) \<Rightarrow> (t1 @ t2, Inl e)
              | (t2, Inr upsampledBedMesh) \<Rightarrow>
                 (case writeHeightmap env cfg upsampledBedMesh of
                    (t3, r) \<Rightarrow> (t1 @ t2 @ t3, r)))))"


subsection \<open>What the aggregation is compared with\<close>

text \<open>The distinct elements of a list in the order of their first occurrence.\<close>

primrec first_seen :: "'a list \<Rightarrow> 'a list" where
  "first_seen [] = []"
| "first_seen (k # ks) = k # filter (\<lambda>j. j \<noteq> k) (first_seen ks)"

text \<open>The samples that the lines of a log hold, in their order, when every one parses.\<close>

fun samples_of_lines :: "env \<Rightarrow> string list \<Rightarrow> error + ((real \<times> real) \<times> real) list" where
  "samples_of_lines env [] = Inr []"
| "samples_of_lines env (line # rest) =
     (case sample_of_line env line of
        None \<Rightarrow> samples_of_lines env rest
      | Some (Inl e) \<Rightarrow> Inl e
      | Some (Inr s) \<Rightarrow>
          (case samples_of_lines env rest of Inl e \<Rightarrow> Inl e | Inr ss \<Rightarrow> Inr (s # ss)))"

text \<open>All Z values observed at one coordinate pair.\<close>

definition z_values_at :: "real \<times> real \<Rightarrow> ((real \<times> real) \<times> real) list \<Rightarrow> real list" where
  "z_values_at k samples = map snd (filter (\<lambda>s. fst s = k) samples)"

text \<open>The loop body of lines 155 to 158 run over a sequence of samples.\<close>

definition group_samples :: "((real \<times> real) \<times> real) list \<Rightarrow> probed \<Rightarrow> probed" where
  "group_samples samples d = foldl (\<lambda>d s. dict_append (fst s) (snd s) d) d samples"


subsection \<open>A small world for examples\<close>

text \<open>
  A log of four lines, three of them probe points, and stand-ins for the library
  functions that are defined on the texts of this log only.
\<close>

definition test_env :: env where
  "test_env =
     \<lparr>lib_readlines = (\<lambda>path.
         if path = ''meshbedprobe.log''
         then Inr [''Mesh Point: X0 Y0 Z1.0'', ''G29 S0'', ''Mesh Point: X0 Y0 Z3.0'',
                   ''Mesh Point: X1 Y0 Z2.0'']
         else Inl OSError),
      lib_search = (\<lambda>line.
         if line = ''Mesh Point: X0 Y0 Z1.0'' then Some (''0'', ''0'', ''1.0'')
         else if line = ''Mesh Point: X0 Y0 Z3.0'' then Some (''0'', ''0'', ''3.0'')
         else if line = ''Mesh Point: X1 Y0 Z2.0'' then Some (''1'', ''0'', ''2.0'')
         else None),
      lib_float = (\<lambda>text.
         if text = ''0'' then Inr 0 else if text = ''1'' then Inr 1
         else if text = ''1.0'' then Inr 1 else if text = ''2.0'' then Inr 2
         else if text = ''3.0'' then Inr 3 else Inl ValueError),
      lib_Rbf = (\<lambda>x y z kw. if x = [] then Inl ValueError else Inr (\<lambda>qx qy. 0)),
      lib_now = ''2020-01-01 00:00'',
      lib_str_float = (\<lambda>r. str_int \<lfloor>r * 1000\<rfloor> @ ''e-3''),
      lib_write = (\<lambda>path text. None),
      lib_chmod = (\<lambda>path mode. None)\<rparr>"

definition test_config :: config where
  "test_config =
     \<lparr>xMin = 0, xMax = 10, yMin = 0, yMax = 10, xPoints = 2, yPoints = 3,
      maxSamplePoints = 441, probeLogPath = ''meshbedprobe.log'',
      heightmapPath = ''heightmap.csv''\<rparr>"


subsection \<open>What a well formed extent is\<close>





section \<open>Properties of the mesh interval selection\<close>








section \<open>Properties of the aggregation\<close>

lemma set_first_seen: "set (first_seen ks) = set ks"
  by (induction ks) auto

lemma distinct_first_seen: "distinct (first_seen ks)"
  by (induction ks) (auto simp: set_first_seen)

lemma first_seen_snoc:
  "first_seen (ks @ [k]) = (if k \<in> set ks then first_seen ks else first_seen ks @ [k])"
  by (induction ks) auto

lemma probe_lines_group:
  "samples_of_lines env lines = Inr samples \<Longrightarrow>
   probe_lines env lines d = Inr (group_samples samples d)"
proof (induction lines arbitrary: d samples)
  case Nil
  then show ?case by (simp add: group_samples_def)
next
  case (Cons line rest)
  then show ?case
    by (auto simp: group_samples_def split: option.splits sum.splits)
qed

lemma keys_dict_append:
  "map fst (dict_append k z d) = (if k \<in> set (map fst d) then map fst d else map fst d @ [k])"
  by (induction d) (force+)

lemma map_of_dict_append:
  "map_of (dict_append k z d) =
     (map_of d)(k \<mapsto> (case map_of d k of None \<Rightarrow> [z] | Some zs \<Rightarrow> zs @ [z]))"
  by (induction d) (auto simp: fun_eq_iff)

lemma group_samples_snoc:
  "group_samples (samples @ [s]) d = dict_append (fst s) (snd s) (group_samples samples d)"
  by (simp add: group_samples_def)

lemma keys_group_samples:
  "map fst (group_samples samples []) = first_seen (map fst samples)"
proof (induction samples rule: rev_induct)
  case Nil
  then show ?case by (simp add: group_samples_def)
next
  case (snoc s samples)
  have "set (map fst (group_samples samples [])) = set (map fst samples)"
    using snoc by (simp add: set_first_seen)
  then show ?case
    using snoc by (simp add: group_samples_snoc keys_dict_append first_seen_snoc del: set_map) 
qed

lemma map_of_group_samples:
  "map_of (group_samples samples []) k =
     (if k \<in> set (map fst samples) then Some (z_values_at k samples) else None)"
proof (induction samples arbitrary: k rule: rev_induct)
  case Nil
  then show ?case by (simp add: group_samples_def)
next
  case (snoc s samples)
  have empty: "z_values_at j samples = []" if "j \<notin> set (map fst samples)" for j
    using that by (force simp: z_values_at_def filter_empty_conv)
  show ?case
  proof (cases "k = fst s")
    case True
    then show ?thesis
      using snoc[of "fst s"] empty[of "fst s"]
      by (simp add: group_samples_snoc map_of_dict_append z_values_at_def)
  next
    case False
    then show ?thesis
      using snoc[of k]
      by (simp add: group_samples_snoc map_of_dict_append z_values_at_def)
  qed
qed

lemma averageZOffset_ok:
  "\<forall>(k, zs) \<in> set d. zs \<noteq> [] \<Longrightarrow>
   averageZOffset d =
     Inr (map (fst \<circ> fst) d, map (snd \<circ> fst) d,
          map (\<lambda>(k, zs). sum_list zs / real (length zs)) d)"
  by (induction d) (auto simp: mean_z_def)


text \<open>
  Claim C3. When the log is read and its matching lines parse to the sequence
  \<open>samples\<close> (of any length, with or without repeated coordinates), reading and
  averaging return three sequences of equal length with one entry for each distinct
  coordinate pair, in the order in which the pairs were first seen; the Z entry of a
  pair is the sum of all Z values observed at that pair divided by their number; and
  no samples give three empty sequences.
\<close>

theorem aggregate_samples:
  assumes "lib_readlines env (probeLogPath cfg) = Inr lines"
    and "samples_of_lines env lines = Inr samples"
  shows "\<exists>probedPoints x y z.
           snd (parseProbedPoints env cfg) = Inr probedPoints \<and>
           averageZOffset probedPoints = Inr (x, y, z) \<and>
           length x = card (fst ` set samples) \<and> length y = length x \<and> length z = length x \<and>
           zip x y = first_seen (map fst samples) \<and> distinct (zip x y) \<and>
           z = map (\<lambda>k. sum_list (z_values_at k samples) / real (length (z_values_at k samples)))
                   (zip x y) \<and>
           (samples = [] \<longrightarrow> (x, y, z) = ([], [], []))"
proof -
  define d where "d = group_samples samples []"
  define ks where "ks = first_seen (map fst samples)"
  have keys: "map fst d = ks"
    unfolding d_def ks_def by (rule keys_group_samples)
  have dist: "distinct (map fst d)"
    unfolding keys ks_def by (rule distinct_first_seen)
  have val: "zs = z_values_at k samples \<and> zs \<noteq> []" if "(k, zs) \<in> set d" for k zs
  proof -
    have "map_of d k = Some zs" using that dist by simp
    moreover have "k \<in> set ks" using that keys by force
    then have kin: "k \<in> set (map fst samples)" by (simp add: ks_def set_first_seen)
    ultimately have eq: "zs = z_values_at k samples"
      using map_of_group_samples[of samples k] by (simp add: d_def)
    from kin obtain s where "s \<in> set samples" "fst s = k" by auto
    then have "z_values_at k samples \<noteq> []"
      by (auto simp: z_values_at_def filter_empty_conv)
    with eq show ?thesis by simp
  qed
  have parse: "snd (parseProbedPoints env cfg) = Inr d"
    using assms by (simp add: parseProbedPoints_def probe_lines_group d_def)
  have ne: "\<forall>(k, zs) \<in> set d. zs \<noteq> []" using val by auto
  have zmap: "map (\<lambda>(k, zs). sum_list zs / real (length zs)) d =
        map (\<lambda>k. sum_list (z_values_at k samples) / real (length (z_values_at k samples))) (map fst d)"
    using val by (auto simp: case_prod_beta)
  have avg: "averageZOffset d =
        Inr (map fst ks, map snd ks,
             map (\<lambda>k. sum_list (z_values_at k samples) / real (length (z_values_at k samples))) ks)"
    using averageZOffset_ok[OF ne] zmap keys[symmetric] by (simp add: comp_def)
  have zipks: "zip (map fst ks) (map snd ks) = ks" by (simp add: zip_map_fst_snd)
  have card: "length ks = card (fst ` set samples)"
    using distinct_card[OF distinct_first_seen[of "map fst samples"]]
    by (simp add: ks_def set_first_seen)
  show ?thesis
    apply (rule exI[of _ d], rule exI[of _ "map fst ks"], rule exI[of _ "map snd ks"])
    apply (rule exI[of _ "map (\<lambda>k. sum_list (z_values_at k samples) / real (length (z_values_at k samples))) ks"])
    using parse avg zipks card distinct_first_seen[of "map fst samples"]
    by (auto simp: ks_def)
qed

lemma test_samples:
  "samples_of_lines test_env
     [''Mesh Point: X0 Y0 Z1.0'', ''G29 S0'', ''Mesh Point: X0 Y0 Z3.0'', ''Mesh Point: X1 Y0 Z2.0'']
   = Inr [((0, 0), 1), ((0, 0), 3), ((1, 0), 2)]"
  by (simp add: test_env_def sample_of_line_def)

theorem aggregate_samples_witness:
  "\<exists>probedPoints. snd (parseProbedPoints test_env test_config) = Inr probedPoints \<and>
     averageZOffset probedPoints = Inr ([0, 1], [0, 0], [2, 2])"
proof -
  have r: "lib_readlines test_env (probeLogPath test_config) =
      Inr [''Mesh Point: X0 Y0 Z1.0'', ''G29 S0'', ''Mesh Point: X0 Y0 Z3.0'', ''Mesh Point: X1 Y0 Z2.0'']"
    by (simp add: test_env_def test_config_def)
  from aggregate_samples[OF r test_samples]
  obtain probedPoints x y z where
    p: "snd (parseProbedPoints test_env test_config) = Inr probedPoints"
    and a: "averageZOffset probedPoints = Inr (x, y, z)"
    and k: "zip x y = first_seen (map fst [((0::real, 0::real), 1::real), ((0, 0), 3), ((1, 0), 2)])"
    and l: "length y = length x"
    and zz: "z = map (\<lambda>k. sum_list (z_values_at k [((0, 0), 1), ((0, 0), 3), ((1, 0), 2)]) /
                  real (length (z_values_at k [((0, 0), 1), ((0, 0), 3), ((1, 0), 2)]))) (zip x y)"
    by blast
  have k': "zip x y = [(0, 0), (1, 0)]" using k by simp
  have "map fst (zip x y) = x" "map snd (zip x y) = y" using l by simp_all
  then have xy: "x = [0, 1]" "y = [0, 0]" using k' by simp_all
  have "z = [2, 2]" unfolding zz k' by (simp add: z_values_at_def)
  with p a xy show ?thesis by blast
qed


section \<open>Properties of the written height map\<close>










section \<open>Properties of the argument checks\<close>

lemma is_digit_simps:
  "is_digit CHR ''0''" "is_digit CHR ''1''" "is_digit CHR ''2''" "is_digit CHR ''5''"
  "\<not> is_digit CHR '':''" "\<not> is_digit CHR ''a''" "\<not> is_digit CHR ''_''" "\<not> is_digit CHR '' ''"
  by (simp_all add: is_digit_def)


lemma split_bad: "splitIntArgs ''0:10abc'' = Inl ValueError" "splitIntArgs ''0:1_0'' = Inr [0, 10]"
   "splitIntArgs ''0:10 '' = Inr [0, 10]"  "splitIntArgs ''0:10:20'' = Inr [0, 10, 20]"
  by (simp_all add: splitIntArgs_def py_int_def strip_def is_space_def is_digit_def
      decimal_value_def digit_val_def)

lemma match_ex: "colonSeparatedNumbersPattern_match ''0:10''" "colonSeparatedNumbersPattern_match ''1:5''"
  "colonSeparatedNumbersPattern_match ''0:10abc''" "\<not> colonSeparatedNumbersPattern_match ''abc''"
  "\<not> colonSeparatedNumbersPattern_match '' 0:10''"
  by (simp_all add: colonSeparatedNumbersPattern_match_def optional_minus_def is_digit_def)


lemma test_probed:
  "parseProbedPoints test_env cfg = ([ReadLog (probeLogPath cfg)],
     if probeLogPath cfg = ''meshbedprobe.log'' then Inr [((0, 0), [1, 3]), ((1, 0), [2])] else Inl OSError)"
  by (simp add: parseProbedPoints_def test_env_def sample_of_line_def)











text \<open>
  The pattern is matched at the start of the argument only. What follows it is judged
  by \<^verbatim>\<open>int()\<close>: letters are refused there, while digits joined by an underscore are
  read as one integer.
\<close>

lemma prefix_match_examples:
  "colonSeparatedNumbersArgType ''0:10abc'' = Inr ''0:10abc''"
  "unpack2 (splitIntArgs ''0:10abc'') = Inl ValueError"
  "colonSeparatedNumbersArgType ''0:1_0'' = Inr ''0:1_0''"
  "unpack2 (splitIntArgs ''0:1_0'') = Inr (0, 10)"
  "colonSeparatedNumbersArgType '' 0:10'' = Inl ArgumentTypeError"
  by (simp_all add: colonSeparatedNumbersArgType_def match_ex split_bad unpack2_def
      colonSeparatedNumbersPattern_match_def optional_minus_def is_digit_def)

section \<open>Properties of the interpolation call and of the whole run\<close>







lemma upsample_events:
  "fst (upsampleBedMesh env cfg (x, y, z)) = [RbfCall x y z upsample_kwargs]"
  by (simp add: upsampleBedMesh_def)

text \<open>
  Claim C1, as the script has it. The interpolation step makes no check of the number
  of points: for every point set, those of no point and of one point included, it calls
  the constructor \<^verbatim>\<open>Rbf\<close> once, on the three sequences as they are; when the
  constructor raises, the step ends with that error, and when it returns a surface the
  step evaluates it on the grid.
\<close>

theorem upsample_no_guard:
  "fst (upsampleBedMesh env cfg (x, y, z)) = [RbfCall x y z upsample_kwargs] \<and>
   (\<forall>e. lib_Rbf env x y z upsample_kwargs = Inl e \<longrightarrow>
        snd (upsampleBedMesh env cfg (x, y, z)) = Inl e) \<and>
   (\<forall>f. lib_Rbf env x y z upsample_kwargs = Inr f \<longrightarrow>
        snd (upsampleBedMesh env cfg (x, y, z)) =
          (case buildMeshPoints cfg of
             Inl e \<Rightarrow> Inl e
           | Inr (gx, gy) \<Rightarrow> Inr (map2 (map2 f) gx gy)))"
  by (simp add: upsampleBedMesh_def)

theorem upsample_no_guard_witness:
  "fst (upsampleBedMesh test_env test_config ([], [], [])) = [RbfCall [] [] [] upsample_kwargs] \<and>
   snd (upsampleBedMesh test_env test_config ([], [], [])) = Inl ValueError"
  using upsample_no_guard[of test_env test_config "[]" "[]" "[]"]
  by (simp add: test_env_def)

text \<open>
  Against claim C1 as stated: with no point and with one point the constructor is
  called all the same.
\<close>

theorem degenerate_input_counterexample:
  "fst (upsampleBedMesh test_env test_config ([], [], [])) = [RbfCall [] [] [] upsample_kwargs] \<and>
   fst (upsampleBedMesh test_env test_config ([0], [0], [2])) =
     [RbfCall [0] [0] [2] upsample_kwargs]"
  by (simp add: upsampleBedMesh_def)

lemma process_probe_data_rbf_calls:
  assumes "RbfCall x y z kw \<in> set (fst (process_probe_data env cfg))"
  shows "kw = upsample_kwargs"
proof -
  have w: "RbfCall x y z kw \<notin> set (fst (writeHeightmap env cfg mesh))" for mesh
    by (auto simp: writeHeightmap_def Let_def split: sum.splits option.splits)
  have u: "RbfCall x y z kw \<in> set (fst (upsampleBedMesh env cfg pts)) \<Longrightarrow> kw = upsample_kwargs"
    for pts
    by (cases pts) (auto simp: upsampleBedMesh_def)
  have p: "RbfCall x y z kw \<notin> set (fst (parseProbedPoints env cfg))"
    by (simp add: parseProbedPoints_def)
  show ?thesis
  proof (cases "parseProbedPoints env cfg")
    case (Pair t1 r1)
    note pp = this
    show ?thesis
    proof (cases r1)
      case (Inl e)
      with assms p pp show ?thesis by (simp add: process_probe_data_def)
    next
      case (Inr probedPoints)
      note r1 = this
      show ?thesis
      proof (cases "averageZOffset probedPoints")
        case (Inl e)
        with assms p pp r1 show ?thesis by (simp add: process_probe_data_def)
      next
        case (Inr averagedPoints)
        note av = this
        obtain t2 r2 where up: "upsampleBedMesh env cfg averagedPoints = (t2, r2)"
          by (cases "upsampleBedMesh env cfg averagedPoints")
        show ?thesis
        proof (cases r2)
          case (Inl e)
          with assms p pp r1 av up u[of averagedPoints] show ?thesis
            by (auto simp: process_probe_data_def)
        next
          case (Inr mesh)
          obtain t3 r3 where wr: "writeHeightmap env cfg mesh = (t3, r3)"
            by (cases "writeHeightmap env cfg mesh")
          with assms p pp r1 av up Inr u[of averagedPoints] w[of mesh] show ?thesis
            by (auto simp: process_probe_data_def)
        qed
      qed
    qed
  qed
qed

text \<open>
  Claim C6, as the script has it. Every call of the constructor \<^verbatim>\<open>Rbf\<close> that a run
  makes carries \<^verbatim>\<open>smooth=0\<close> and neither a kernel function nor a shape parameter: the
  kernel and the shape parameter are whatever the library takes by default, and the
  script computes neither.
\<close>

theorem rbf_call_leaves_kernel_to_library:
  assumes "RbfCall x y z kw \<in> set (fst (process_probe_data env cfg))"
  shows "function_kw kw = None \<and> epsilon_kw kw = None \<and> smooth_kw kw = Some 0"
  using process_probe_data_rbf_calls[OF assms] by (simp add: upsample_kwargs_def)

lemma test_run_events:
  "RbfCall [0, 1] [0, 0] [2, 2] upsample_kwargs \<in> set (fst (process_probe_data test_env test_config))"
proof -
  have pp: "parseProbedPoints test_env test_config =
      ([ReadLog ''meshbedprobe.log''], Inr [((0, 0), [1, 3]), ((1, 0), [2])])"
    by (simp add: test_probed) (simp add: test_config_def)
  obtain r2 where up: "upsampleBedMesh test_env test_config ([0, 1], [0, 0], [2, 2]) =
      ([RbfCall [0, 1] [0, 0] [2, 2] upsample_kwargs], r2)"
    using upsample_events[of test_env test_config "[0, 1]" "[0, 0]" "[2, 2]"]
    by (cases "upsampleBedMesh test_env test_config ([0, 1], [0, 0], [2, 2])") simp
  show ?thesis
    by (cases r2; simp add: process_probe_data_def pp mean_z_def up split: prod.splits)
qed

theorem rbf_call_leaves_kernel_to_library_witness:
  "RbfCall [0, 1] [0, 0] [2, 2] upsample_kwargs \<in> set (fst (process_probe_data test_env test_config)) \<and>
   function_kw upsample_kwargs = None \<and> epsilon_kw upsample_kwargs = None \<and>
   smooth_kw upsample_kwargs = Some 0"
  using rbf_call_leaves_kernel_to_library[OF test_run_events] test_run_events by simp

text \<open>
  Against claim C6 as stated: the call that a run makes names no shape parameter and
  no kernel.
\<close>

theorem shape_parameter_counterexample:
  "fst (upsampleBedMesh test_env test_config ([0, 1], [0, 0], [2, 2])) =
     [RbfCall [0, 1] [0, 0] [2, 2] \<lparr>function_kw = None, epsilon_kw = None, smooth_kw = Some 0\<rparr>]"
  by (simp add: upsampleBedMesh_def upsample_kwargs_def)

end
